theory Spec2Isabelle
  imports Complex_Main "HOL-Library.Multiset"
begin

section \<open>RepoPulse ML service: model wrappers and explanation pipeline\<close>

text \<open>
  The service wraps three scikit-learn estimators (risk, churn, anomaly) and post-processes
  their scores. Python floats are modelled as \<^typ>\<open>real\<close>: every comparison, sum and
  quotient is the exact one, and the special values nan and inf of IEEE arithmetic do not
  exist here. The one place where the source turns an infinite float into an exception
  (\<^verbatim>\<open>int(np.exp(f1) - 1)\<close>) is modelled by an explicit branch.
\<close>

subsection \<open>Exceptions and message formatting\<close>

datatype error =
    ValueError string
  | IndexError string
  | OverflowError string
  | AttributeError string
  | TypeError string
  | KeyError string

fun message :: "error \<Rightarrow> string" where
  "message (ValueError m) = m"
| "message (IndexError m) = m"
| "message (OverflowError m) = m"
| "message (AttributeError m) = m"
| "message (TypeError m) = m"
| "message (KeyError m) = m"

definition digit_char :: "nat \<Rightarrow> char" where
  "digit_char d = ''0123456789'' ! d"

text \<open>Python's \<^verbatim>\<open>str\<close> of a non-negative integer, as an f-string formats it.\<close>

function str_nat :: "nat \<Rightarrow> string" where
  "str_nat n = (if n < 10 then [digit_char n] else str_nat (n div 10) @ [digit_char (n mod 10)])"
  by pat_completeness auto
termination
  by (relation "measure id") auto

declare str_nat.simps [simp del]

subsection \<open>Risk and churn levels\<close>

text \<open>\<^verbatim>\<open>RiskModel.get_risk_level\<close> (risk_model.py).\<close>

definition get_risk_level :: "real \<Rightarrow> string" where
  "get_risk_level risk_score =
     (if risk_score < 0.4 then ''Low''
      else if risk_score \<le> 0.7 then ''Medium''
      else ''High'')"

text \<open>The level chain of \<^verbatim>\<open>predict_churn\<close> (main.py).\<close>

definition churn_level :: "real \<Rightarrow> string" where
  "churn_level churn_prob =
     (if churn_prob > 0.8 then ''critical''
      else if churn_prob > 0.6 then ''high''
      else if churn_prob > 0.4 then ''medium''
      else ''low'')"

subsection \<open>Recommendation generator\<close>

text \<open>\<^verbatim>\<open>PRFeatures\<close> (main.py).\<close>

record PRFeatures =
  f1 :: real
  f2 :: real
  f3 :: real
  f4 :: real
  f5 :: real
  f6 :: real
  f7 :: real
  f8 :: real

text \<open>Python's \<^verbatim>\<open>int\<close> of a finite float: truncation towards zero.\<close>

definition py_int :: "real \<Rightarrow> int" where
  "py_int x = (if 0 \<le> x then \<lfloor>x\<rfloor> else \<lceil>x\<rceil>)"

text \<open>
  \<^verbatim>\<open>np.exp\<close> returns inf for a double argument above the logarithm of the largest
  double (709.78271289338397 is the last double with a finite exponential, the next double
  already overflows); \<^verbatim>\<open>inf - 1\<close> is inf and \<^verbatim>\<open>int(inf)\<close> raises OverflowError.
\<close>

definition exp_overflow :: real where
  "exp_overflow = 709.782712893384"

text \<open>\<^verbatim>\<open>if c: recommendations.append(m)\<close>\<close>

definition append_if :: "bool \<Rightarrow> 'a \<Rightarrow> 'a list \<Rightarrow> 'a list" where
  "append_if c m recommendations = (if c then recommendations @ [m] else recommendations)"

text \<open>
  \<^verbatim>\<open>generate_recommendations\<close> (risk_model.py). The list \<^verbatim>\<open>recommendations\<close> is
  threaded through the rule statements as \<open>r0\<close>, ..., \<open>r10\<close>; \<^verbatim>\<open>top_factors\<close> is
  accepted and never read, as in the source.
\<close>

definition generate_recommendations :: "PRFeatures \<Rightarrow> real \<Rightarrow> 'a \<Rightarrow> error + string list" where
  "generate_recommendations features risk_score top_factors =
     (let lines_added_deleted = f1 features;
          files_changed = f2 features;
          commits = f3 features;
          review_comments = f4 features;
          time_to_merge = f5 features;
          rejection_rate = f6 features;
          experience_score = f7 features;
          churn_score = f8 features
      in if lines_added_deleted > exp_overflow
         then Inl (OverflowError ''cannot convert float infinity to integer'')
         else
           let approx_lines = py_int (exp lines_added_deleted - 1);
               r0 = [];
               r1 = append_if (approx_lines > 1500)
                      ''Consider splitting this PR into smaller modules to reduce review complexity.'' r0;
               r2 = append_if (files_changed > 10)
                      ''This PR modifies multiple files - consider modular refactoring or breaking into smaller PRs.'' r1;
               r3 = append_if (experience_score < 0.3)
                      ''Assign a senior reviewer due to low contributor experience.'' r2;
               r4 = append_if (churn_score > 0.6)
                      ''High file churn detected - consider refactoring before merge to reduce technical debt.'' r3;
               r5 = append_if (time_to_merge > 0.5)
                      ''This PR has slow merge time - prioritize review or break into smaller parts.'' r4;
               r6 = append_if (rejection_rate > 0.3)
                      ''Contributor has high rejection rate - ensure thorough testing before submission.'' r5;
               r7 = append_if (commits > 5)
                      ''Multiple commits suggest iterations - consider squash merging for cleaner history.'' r6;
               r8 = append_if (review_comments = 0 \<and> risk_score > 0.5)
                      ''No review comments detected - request additional review or clarification.'' r7;
               r9 = append_if (risk_score > 0.7 \<and> length r8 = 0)
                      ''This PR has high overall risk - consider additional testing and review cycles.'' r8;
               r10 = append_if (length r9 = 0)
                      ''PR looks good - proceed with standard review process.'' r9
           in Inr r10)"

subsection \<open>Arrays, estimators and the artifact store\<close>

text \<open>
  A numpy array of floats, as far as the wrappers look at it: one-dimensional, or
  two-dimensional with its column count \<^verbatim>\<open>shape[1]\<close> and its rows.
\<close>

datatype ndarray = Vec "real list" | Mat nat "real list list"

fun shape1 :: "ndarray \<Rightarrow> error + nat" where
  "shape1 (Vec xs) = Inl (IndexError ''tuple index out of range'')"
| "shape1 (Mat c rows) = Inr c"

fun rows_of :: "ndarray \<Rightarrow> real list list" where
  "rows_of (Vec xs) = []"
| "rows_of (Mat c rows) = rows"

text \<open>
  The scikit-learn estimators are opaque: each is the function (and, for the classifier,
  the importance vector) that the wrapper calls.
\<close>

record RandomForestClassifier =
  rfc_feature_importances :: "real list"
  predict_proba :: "real list list \<Rightarrow> real list list"

datatype RandomForestRegressor = RandomForestRegressor (rfr_predict: "real list list \<Rightarrow> real list")

datatype IsolationForest = IsolationForest (decision_function: "real list list \<Rightarrow> real list")

text \<open>
  The artifact file of one model: absent, or present with content that \<^verbatim>\<open>joblib.load\<close>
  turns back into the dumped estimator or fails on. The journal records what a call did
  to the estimator and the file.
\<close>

datatype 'e blob = Readable 'e | Corrupt

datatype io_event = Loaded | Load_failed | Fit | Dumped

record 'e disk =
  artifact :: "'e blob option"
  journal :: "io_event list"

text \<open>
  The fields \<^verbatim>\<open>model\<close> and \<^verbatim>\<open>is_trained\<close> that the three wrapper classes share;
  \<^verbatim>\<open>RiskModel\<close> adds \<^verbatim>\<open>feature_importances_\<close>, here \<open>feature_importances\<close> (its \<^verbatim>\<open>scaler\<close> is never used).
\<close>

record 'e Model =
  model :: "'e option"
  is_trained :: bool

record RiskModel = "RandomForestClassifier Model" +
  feature_importances :: "real list option"

type_synonym ChurnModel = "RandomForestRegressor Model"
type_synonym AnomalyModel = "IsolationForest Model"

definition RiskModel_init :: RiskModel where
  "RiskModel_init = \<lparr>model = None, is_trained = False, feature_importances = None\<rparr>"

definition ChurnModel_init :: ChurnModel where
  "ChurnModel_init = \<lparr>model = None, is_trained = False\<rparr>"

definition AnomalyModel_init :: AnomalyModel where
  "AnomalyModel_init = \<lparr>model = None, is_trained = False\<rparr>"

subsection \<open>Risk wrapper lifecycle\<close>

text \<open>
  \<^verbatim>\<open>_train_synthetic\<close>: the data and the forest are seeded, so the fit is one fixed
  estimator, the parameter \<open>fitted\<close>.
\<close>

definition RiskModel_train_synthetic ::
  "RandomForestClassifier \<Rightarrow> RiskModel \<times> RandomForestClassifier disk
     \<Rightarrow> RiskModel \<times> RandomForestClassifier disk" where
  "RiskModel_train_synthetic fitted s =
     (case s of (self, d) \<Rightarrow>
        (self\<lparr>model := Some fitted, is_trained := True,
              feature_importances := Some (rfc_feature_importances fitted)\<rparr>,
         d\<lparr>artifact := Some (Readable fitted), journal := journal d @ [Fit, Dumped]\<rparr>))"

definition RiskModel_load_or_train ::
  "RandomForestClassifier \<Rightarrow> RiskModel \<times> RandomForestClassifier disk
     \<Rightarrow> RiskModel \<times> RandomForestClassifier disk" where
  "RiskModel_load_or_train fitted s =
     (case s of (self, d) \<Rightarrow>
        (case artifact d of
           Some (Readable m) \<Rightarrow>
             (self\<lparr>model := Some m, is_trained := True,
                   feature_importances := Some (rfc_feature_importances m)\<rparr>,
              d\<lparr>journal := journal d @ [Loaded]\<rparr>)
         | Some Corrupt \<Rightarrow>
             RiskModel_train_synthetic fitted (self, d\<lparr>journal := journal d @ [Load_failed]\<rparr>)
         | None \<Rightarrow> RiskModel_train_synthetic fitted (self, d)))"

text \<open>The guard at the head of every prediction path.\<close>

definition RiskModel_ensure ::
  "RandomForestClassifier \<Rightarrow> RiskModel \<times> RandomForestClassifier disk
     \<Rightarrow> RiskModel \<times> RandomForestClassifier disk" where
  "RiskModel_ensure fitted s =
     (if \<not> is_trained (fst s) then RiskModel_load_or_train fitted s else s)"

text \<open>\<^verbatim>\<open>probabilities[:, k]\<close>\<close>

definition column :: "nat \<Rightarrow> real list list \<Rightarrow> error + real list" where
  "column k rows =
     (if list_all (\<lambda>r. k < length r) rows then Inr (map (\<lambda>r. r ! k) rows)
      else Inl (IndexError ''index is out of bounds for axis 1''))"

definition RiskModel_predict ::
  "RandomForestClassifier \<Rightarrow> RiskModel \<times> RandomForestClassifier disk \<Rightarrow> ndarray
     \<Rightarrow> (error + real list) \<times> RiskModel \<times> RandomForestClassifier disk" where
  "RiskModel_predict fitted s features =
     (let s' = RiskModel_ensure fitted s in
      case shape1 features of
        Inl e \<Rightarrow> (Inl e, s')
      | Inr n \<Rightarrow>
          if n \<noteq> 8 then (Inl (ValueError (''Expected 8 features, got '' @ str_nat n)), s')
          else (case model (fst s') of
                  None \<Rightarrow> (Inl (AttributeError ''NoneType object has no attribute predict_proba''), s')
                | Some m \<Rightarrow>
                    let probabilities = predict_proba m (rows_of features) in
                    (if (case probabilities of [] \<Rightarrow> False | r # _ \<Rightarrow> length r = 2)
                     then column 1 probabilities
                     else column 0 probabilities, s')))"

subsection \<open>Churn wrapper\<close>

definition ChurnModel_train_synthetic ::
  "RandomForestRegressor \<Rightarrow> ChurnModel \<times> RandomForestRegressor disk
     \<Rightarrow> ChurnModel \<times> RandomForestRegressor disk" where
  "ChurnModel_train_synthetic fitted s =
     (case s of (self, d) \<Rightarrow>
        (self\<lparr>model := Some fitted, is_trained := True\<rparr>,
         d\<lparr>artifact := Some (Readable fitted), journal := journal d @ [Fit, Dumped]\<rparr>))"

definition ChurnModel_load_or_train ::
  "RandomForestRegressor \<Rightarrow> ChurnModel \<times> RandomForestRegressor disk
     \<Rightarrow> ChurnModel \<times> RandomForestRegressor disk" where
  "ChurnModel_load_or_train fitted s =
     (case s of (self, d) \<Rightarrow>
        (case artifact d of
           Some (Readable m) \<Rightarrow>
             (self\<lparr>model := Some m, is_trained := True\<rparr>, d\<lparr>journal := journal d @ [Loaded]\<rparr>)
         | Some Corrupt \<Rightarrow>
             ChurnModel_train_synthetic fitted (self, d\<lparr>journal := journal d @ [Load_failed]\<rparr>)
         | None \<Rightarrow> ChurnModel_train_synthetic fitted (self, d)))"

definition ChurnModel_ensure ::
  "RandomForestRegressor \<Rightarrow> ChurnModel \<times> RandomForestRegressor disk
     \<Rightarrow> ChurnModel \<times> RandomForestRegressor disk" where
  "ChurnModel_ensure fitted s =
     (if \<not> is_trained (fst s) then ChurnModel_load_or_train fitted s else s)"

text \<open>\<^verbatim>\<open>np.clip(a, 0, 1)\<close>\<close>

definition clip01 :: "real list \<Rightarrow> real list" where
  "clip01 a = map (\<lambda>y. min (max y 0) 1) a"

definition ChurnModel_predict ::
  "RandomForestRegressor \<Rightarrow> ChurnModel \<times> RandomForestRegressor disk \<Rightarrow> ndarray
     \<Rightarrow> (error + real list) \<times> ChurnModel \<times> RandomForestRegressor disk" where
  "ChurnModel_predict fitted s features =
     (let s' = ChurnModel_ensure fitted s in
      case shape1 features of
        Inl e \<Rightarrow> (Inl e, s')
      | Inr n \<Rightarrow>
          if n \<noteq> 4 then (Inl (ValueError (''Expected 4 features, got '' @ str_nat n)), s')
          else (case model (fst s') of
                  None \<Rightarrow> (Inl (AttributeError ''NoneType object has no attribute predict''), s')
                | Some m \<Rightarrow> (Inr (clip01 (rfr_predict m (rows_of features))), s')))"

subsection \<open>Anomaly wrapper\<close>

definition AnomalyModel_train_synthetic ::
  "IsolationForest \<Rightarrow> AnomalyModel \<times> IsolationForest disk
     \<Rightarrow> AnomalyModel \<times> IsolationForest disk" where
  "AnomalyModel_train_synthetic fitted s =
     (case s of (self, d) \<Rightarrow>
        (self\<lparr>model := Some fitted, is_trained := True\<rparr>,
         d\<lparr>artifact := Some (Readable fitted), journal := journal d @ [Fit, Dumped]\<rparr>))"

definition AnomalyModel_load_or_train ::
  "IsolationForest \<Rightarrow> AnomalyModel \<times> IsolationForest disk
     \<Rightarrow> AnomalyModel \<times> IsolationForest disk" where
  "AnomalyModel_load_or_train fitted s =
     (case s of (self, d) \<Rightarrow>
        (case artifact d of
           Some (Readable m) \<Rightarrow>
             (self\<lparr>model := Some m, is_trained := True\<rparr>, d\<lparr>journal := journal d @ [Loaded]\<rparr>)
         | Some Corrupt \<Rightarrow>
             AnomalyModel_train_synthetic fitted (self, d\<lparr>journal := journal d @ [Load_failed]\<rparr>)
         | None \<Rightarrow> AnomalyModel_train_synthetic fitted (self, d)))"

definition AnomalyModel_ensure ::
  "IsolationForest \<Rightarrow> AnomalyModel \<times> IsolationForest disk
     \<Rightarrow> AnomalyModel \<times> IsolationForest disk" where
  "AnomalyModel_ensure fitted s =
     (if \<not> is_trained (fst s) then AnomalyModel_load_or_train fitted s else s)"

text \<open>\<^verbatim>\<open>raw_scores.min()\<close> and \<^verbatim>\<open>raw_scores.max()\<close>: numpy raises on an empty array.\<close>

fun np_min :: "real list \<Rightarrow> error + real" where
  "np_min [] = Inl (ValueError ''zero-size array to reduction operation minimum which has no identity'')"
| "np_min (x # xs) = Inr (fold min xs x)"

fun np_max :: "real list \<Rightarrow> error + real" where
  "np_max [] = Inl (ValueError ''zero-size array to reduction operation maximum which has no identity'')"
| "np_max (x # xs) = Inr (fold max xs x)"

text \<open>The denominator of the min-max normalization, with its epsilon \<^verbatim>\<open>1e-10\<close>.\<close>

definition range_denominator :: "real \<Rightarrow> real \<Rightarrow> real" where
  "range_denominator lo hi = hi - lo + 1 / 10 ^ 10"

definition normalized_scores :: "real list \<Rightarrow> error + real list" where
  "normalized_scores raw_scores =
     (case np_min raw_scores of
        Inl e \<Rightarrow> Inl e
      | Inr lo \<Rightarrow>
          (case np_max raw_scores of
             Inl e \<Rightarrow> Inl e
           | Inr hi \<Rightarrow> Inr (map (\<lambda>r. (r - lo) / range_denominator lo hi) raw_scores)))"

definition AnomalyModel_predict ::
  "IsolationForest \<Rightarrow> AnomalyModel \<times> IsolationForest disk \<Rightarrow> ndarray
     \<Rightarrow> (error + real list) \<times> AnomalyModel \<times> IsolationForest disk" where
  "AnomalyModel_predict fitted s features =
     (let s' = AnomalyModel_ensure fitted s in
      case shape1 features of
        Inl e \<Rightarrow> (Inl e, s')
      | Inr n \<Rightarrow>
          if n \<noteq> 3 then (Inl (ValueError (''Expected 3 features, got '' @ str_nat n)), s')
          else (case model (fst s') of
                  None \<Rightarrow> (Inl (AttributeError ''NoneType object has no attribute decision_function''), s')
                | Some m \<Rightarrow>
                    let raw_scores = decision_function m (rows_of features) in
                    (case normalized_scores raw_scores of
                       Inl e \<Rightarrow> (Inl e, s')
                     | Inr normalized \<Rightarrow>
                         let anomaly_scores = map (\<lambda>v. 1 - v) normalized in
                         (Inr anomaly_scores, s'))))"

subsection \<open>Anomaly endpoint\<close>

text \<open>\<^verbatim>\<open>d.get(k, default)\<close>\<close>

definition dict_get :: "('k \<rightharpoonup> 'v) \<Rightarrow> 'k \<Rightarrow> 'v \<Rightarrow> 'v" where
  "dict_get d k dflt = (case d k of None \<Rightarrow> dflt | Some v \<Rightarrow> v)"

record Flagged =
  index :: nat
  anomaly_score :: real
  flag :: string

record AnomalyResponse =
  anomaly_scores :: "real list"
  flagged_contributors :: "Flagged list"
  model_used :: string

datatype HTTPException = HTTPException (status_code: nat) (detail: string)

text \<open>The flagging loop of \<^verbatim>\<open>detect_anomalies\<close>, over \<^verbatim>\<open>enumerate(anomaly_scores)\<close>.\<close>

fun flag_loop :: "nat \<Rightarrow> real list \<Rightarrow> Flagged list \<Rightarrow> Flagged list" where
  "flag_loop i [] flagged = flagged"
| "flag_loop i (score # rest) flagged =
     flag_loop (Suc i) rest
       (if score > 0.5
        then flagged @ [\<lparr>index = i, anomaly_score = score, flag = ''Unusual activity pattern''\<rparr>]
        else flagged)"

text \<open>
  \<^verbatim>\<open>detect_anomalies\<close> (main.py). The request is a dictionary whose \<^verbatim>\<open>features\<close> entry
  is a list of dictionaries of numbers; any exception becomes an HTTP 500 carrying its
  message.
\<close>

definition detect_anomalies ::
  "IsolationForest \<Rightarrow> AnomalyModel \<times> IsolationForest disk
     \<Rightarrow> (string \<rightharpoonup> (string \<rightharpoonup> real) list)
     \<Rightarrow> (HTTPException + AnomalyResponse) \<times> AnomalyModel \<times> IsolationForest disk" where
  "detect_anomalies fitted s request =
     (let features = dict_get request ''features'' [] in
      if features = []
      then (Inr \<lparr>anomaly_scores = [], flagged_contributors = [], model_used = ''IsolationForest''\<rparr>, s)
      else
        let feature_array =
              Mat 3 (map (\<lambda>f. [dict_get f ''experience_score'' 0,
                               dict_get f ''contributions'' 0,
                               dict_get f ''rejection_rate'' 0]) features)
        in case AnomalyModel_predict fitted s feature_array of
             (Inl e, s') \<Rightarrow> (Inl (HTTPException 500 (message e)), s')
           | (Inr scores, s') \<Rightarrow>
               let flagged = flag_loop 0 scores [] in
               (Inr \<lparr>anomaly_scores = scores, flagged_contributors = flagged,
                     model_used = ''IsolationForest''\<rparr>, s'))"

subsection \<open>Explanation engine\<close>









section \<open>Theorems\<close>

text \<open>
  C5. For every risk score \<open>s\<close>, the risk level is Low exactly when \<open>s < 0.4\<close>, Medium
  exactly when \<open>0.4 \<le> s \<le> 0.7\<close>, and High exactly when \<open>s > 0.7\<close>; both boundaries
  belong to Medium.
\<close>

theorem get_risk_level_buckets:
  "(get_risk_level s = ''Low'') = (s < 0.4) \<and>
   (get_risk_level s = ''Medium'') = (0.4 \<le> s \<and> s \<le> 0.7) \<and>
   (get_risk_level s = ''High'') = (s > 0.7)"
  by (simp add: get_risk_level_def)

text \<open>
  C6. For every churn score \<open>s\<close>, the churn level is critical exactly when \<open>s > 0.8\<close>,
  high exactly when \<open>0.6 < s \<le> 0.8\<close>, medium exactly when \<open>0.4 < s \<le> 0.6\<close>, and low
  otherwise (exactly when \<open>s \<le> 0.4\<close>); the level is always one of the four names, so
  the buckets are mutually exclusive and cover every score, in particular all of [0,1].
\<close>

theorem churn_level_buckets:
  "(churn_level s = ''critical'') = (s > 0.8) \<and>
   (churn_level s = ''high'') = (0.6 < s \<and> s \<le> 0.8) \<and>
   (churn_level s = ''medium'') = (0.4 < s \<and> s \<le> 0.6) \<and>
   (churn_level s = ''low'') = (s \<le> 0.4) \<and>
   churn_level s \<in> {''critical'', ''high'', ''medium'', ''low''}"
  by (simp add: churn_level_def)

subsection \<open>Recommendations\<close>

lemma append_if_True: "append_if True m r = r @ [m]"
  by (simp add: append_if_def)

lemma append_if_False: "append_if False m r = r"
  by (simp add: append_if_def)

lemma append_if_last_nonempty: "append_if (length r = 0) m r \<noteq> []"
  by (cases r) (simp_all add: append_if_def)

lemma exp_7_5_lower: "(1502::real) < exp 7.5"
proof -
  have q: "1 + (3/16) + (3/16)\<^sup>2 / 2 \<le> exp (3/16 :: real)"
    by (rule exp_lower_Taylor_quadratic) simp
  have "(1502::real) < (1 + (3/16) + (3/16)\<^sup>2 / 2) ^ 40"
    by (simp add: power2_eq_square power_divide)
  also have "\<dots> \<le> exp (3/16 :: real) ^ 40"
    by (rule power_mono[OF q]) simp
  also have "\<dots> = exp (of_nat 40 * (3/16 :: real))"
    by (simp only: exp_of_nat_mult)
  also have "\<dots> = exp 7.5" by simp
  finally show ?thesis .
qed

lemma approx_lines_7_5: "1500 < py_int (exp 7.5 - 1)"
proof -
  have "(1501::real) \<le> exp 7.5 - 1" using exp_7_5_lower by simp
  then have "(1501::int) \<le> \<lfloor>exp 7.5 - 1 :: real\<rfloor>" by (simp add: le_floor_iff)
  then show ?thesis by (simp add: py_int_def)
qed

text \<open>
  C7. For every valid feature input (one whose log-scale size \<open>f1\<close> has a finite
  exponential), every risk score and every top-factors list, \<open>generate_recommendations\<close>
  returns a list and the list is not empty. When none of the eight threshold rules
  triggers, the list is the single generic high-risk advisory if the risk score exceeds
  0.7, and the single "looks good" message otherwise.
\<close>

theorem generate_recommendations_nonempty:
  assumes "f1 features \<le> exp_overflow"
  shows "\<exists>recs. generate_recommendations features risk_score top_factors = Inr recs \<and> recs \<noteq> [] \<and>
           (py_int (exp (f1 features) - 1) \<le> 1500 \<and> f2 features \<le> 10 \<and> 0.3 \<le> f7 features \<and>
            f8 features \<le> 0.6 \<and> f5 features \<le> 0.5 \<and> f6 features \<le> 0.3 \<and> f3 features \<le> 5 \<and>
            \<not> (f4 features = 0 \<and> risk_score > 0.5) \<longrightarrow>
            recs = (if risk_score > 0.7
                    then [''This PR has high overall risk - consider additional testing and review cycles.'']
                    else [''PR looks good - proceed with standard review process.'']))"
proof -
  obtain r9 where res: "generate_recommendations features risk_score top_factors
      = Inr (append_if (length r9 = 0) ''PR looks good - proceed with standard review process.'' r9)"
    using assms unfolding generate_recommendations_def Let_def by (simp only: not_less [symmetric] if_False)
  have ne: "append_if (length r9 = 0) ''PR looks good - proceed with standard review process.'' r9 \<noteq> []"
    by (rule append_if_last_nonempty)
  have quiet: "generate_recommendations features risk_score top_factors =
      Inr (if risk_score > 0.7
           then [''This PR has high overall risk - consider additional testing and review cycles.'']
           else [''PR looks good - proceed with standard review process.''])"
    if "py_int (exp (f1 features) - 1) \<le> 1500" "f2 features \<le> 10" "0.3 \<le> f7 features"
       "f8 features \<le> 0.6" "f5 features \<le> 0.5" "f6 features \<le> 0.3" "f3 features \<le> 5"
       "\<not> (f4 features = 0 \<and> risk_score > 0.5)"
    using assms that
    by (simp add: generate_recommendations_def Let_def append_if_True append_if_False not_less [symmetric])
       (auto simp: append_if_def)
  show ?thesis
    using res ne quiet by auto
qed

theorem generate_recommendations_nonempty_witness:
  "f1 \<lparr>f1 = 0, f2 = 0, f3 = 0, f4 = 1, f5 = 0, f6 = 0, f7 = 0.5, f8 = 0\<rparr> \<le> exp_overflow \<and>
   generate_recommendations \<lparr>f1 = 0, f2 = 0, f3 = 0, f4 = 1, f5 = 0, f6 = 0, f7 = 0.5, f8 = 0\<rparr> 0.9 ()
     = Inr [''This PR has high overall risk - consider additional testing and review cycles.'']"
  using generate_recommendations_nonempty
    [of "\<lparr>f1 = 0, f2 = 0, f3 = 0, f4 = 1, f5 = 0, f6 = 0, f7 = 0.5, f8 = 0\<rparr>" "0.9" "()"]
  by (simp add: exp_overflow_def py_int_def)

text \<open>
  C8. For the input \<open>f1=7.5, f2=15, f3=6, f4=0, f5=0.6, f6=0.4, f7=0.2, f8=0.7\<close> the
  result starts with the split-PR, multiple-files, senior-reviewer, high-churn, slow-merge,
  high-rejection-rate and multiple-commits messages, in that order (the order in which the
  rules are declared); the only message that can follow is the no-review-comments one, when
  the risk score exceeds 0.5.
\<close>

theorem generate_recommendations_end_to_end:
  "generate_recommendations
     \<lparr>f1 = 7.5, f2 = 15, f3 = 6, f4 = 0, f5 = 0.6, f6 = 0.4, f7 = 0.2, f8 = 0.7\<rparr> risk_score top_factors
   = Inr ([''Consider splitting this PR into smaller modules to reduce review complexity.'',
           ''This PR modifies multiple files - consider modular refactoring or breaking into smaller PRs.'',
           ''Assign a senior reviewer due to low contributor experience.'',
           ''High file churn detected - consider refactoring before merge to reduce technical debt.'',
           ''This PR has slow merge time - prioritize review or break into smaller parts.'',
           ''Contributor has high rejection rate - ensure thorough testing before submission.'',
           ''Multiple commits suggest iterations - consider squash merging for cleaner history.'']
          @ (if risk_score > 0.5
             then [''No review comments detected - request additional review or clarification.'']
             else []))"
proof -
  have big: "(1500 < py_int (exp (f1 \<lparr>f1 = 7.5, f2 = 15, f3 = 6, f4 = 0, f5 = 0.6, f6 = 0.4, f7 = 0.2, f8 = 0.7\<rparr>) - 1)) = True"
    using approx_lines_7_5 by simp
  show ?thesis
    unfolding generate_recommendations_def Let_def big
    by (simp add: exp_overflow_def append_if_True append_if_False)
qed

subsection \<open>Lifecycle\<close>

lemma RiskModel_load_or_train_twice:
  "RiskModel_load_or_train fitted (RiskModel_load_or_train fitted s) =
     (fst (RiskModel_load_or_train fitted s),
      (snd (RiskModel_load_or_train fitted s))
        \<lparr>journal := journal (snd (RiskModel_load_or_train fitted s)) @ [Loaded]\<rparr>)"
  by (cases s)
     (simp add: RiskModel_load_or_train_def RiskModel_train_synthetic_def
           split: option.splits blob.splits)

lemma RiskModel_load_or_train_trained: "is_trained (fst (RiskModel_load_or_train fitted s))"
  by (cases s)
     (simp add: RiskModel_load_or_train_def RiskModel_train_synthetic_def
           split: option.splits blob.splits)

lemma ChurnModel_load_or_train_twice:
  "ChurnModel_load_or_train fitted (ChurnModel_load_or_train fitted s) =
     (fst (ChurnModel_load_or_train fitted s),
      (snd (ChurnModel_load_or_train fitted s))
        \<lparr>journal := journal (snd (ChurnModel_load_or_train fitted s)) @ [Loaded]\<rparr>)"
  by (cases s)
     (simp add: ChurnModel_load_or_train_def ChurnModel_train_synthetic_def
           split: option.splits blob.splits)

lemma ChurnModel_load_or_train_trained: "is_trained (fst (ChurnModel_load_or_train fitted s))"
  by (cases s)
     (simp add: ChurnModel_load_or_train_def ChurnModel_train_synthetic_def
           split: option.splits blob.splits)

lemma AnomalyModel_load_or_train_twice:
  "AnomalyModel_load_or_train fitted (AnomalyModel_load_or_train fitted s) =
     (fst (AnomalyModel_load_or_train fitted s),
      (snd (AnomalyModel_load_or_train fitted s))
        \<lparr>journal := journal (snd (AnomalyModel_load_or_train fitted s)) @ [Loaded]\<rparr>)"
  by (cases s)
     (simp add: AnomalyModel_load_or_train_def AnomalyModel_train_synthetic_def
           split: option.splits blob.splits)

lemma AnomalyModel_load_or_train_trained: "is_trained (fst (AnomalyModel_load_or_train fitted s))"
  by (cases s)
     (simp add: AnomalyModel_load_or_train_def AnomalyModel_train_synthetic_def
           split: option.splits blob.splits)

text \<open>
  C3 (as amended). The guarded call that heads every prediction path
  (\<^verbatim>\<open>if not self.is_trained: self.load_or_train()\<close>) is a no-op on a trained wrapper and
  is idempotent. \<^verbatim>\<open>load_or_train\<close> itself carries no such guard: a second call in
  sequence reads the artifact once more, and leaves the wrapper state and the artifact as
  the first call left them, with no retraining and no rewrite. This holds for the risk,
  churn and anomaly wrappers alike.
\<close>

theorem load_or_train_second_call:
  "(is_trained (fst sr) \<longrightarrow> RiskModel_ensure fr sr = sr) \<and>
   RiskModel_ensure fr (RiskModel_ensure fr sr) = RiskModel_ensure fr sr \<and>
   fst (RiskModel_load_or_train fr (RiskModel_load_or_train fr sr)) = fst (RiskModel_load_or_train fr sr) \<and>
   artifact (snd (RiskModel_load_or_train fr (RiskModel_load_or_train fr sr)))
     = artifact (snd (RiskModel_load_or_train fr sr)) \<and>
   journal (snd (RiskModel_load_or_train fr (RiskModel_load_or_train fr sr)))
     = journal (snd (RiskModel_load_or_train fr sr)) @ [Loaded] \<and>
   (is_trained (fst sc) \<longrightarrow> ChurnModel_ensure fc sc = sc) \<and>
   ChurnModel_ensure fc (ChurnModel_ensure fc sc) = ChurnModel_ensure fc sc \<and>
   fst (ChurnModel_load_or_train fc (ChurnModel_load_or_train fc sc)) = fst (ChurnModel_load_or_train fc sc) \<and>
   artifact (snd (ChurnModel_load_or_train fc (ChurnModel_load_or_train fc sc)))
     = artifact (snd (ChurnModel_load_or_train fc sc)) \<and>
   journal (snd (ChurnModel_load_or_train fc (ChurnModel_load_or_train fc sc)))
     = journal (snd (ChurnModel_load_or_train fc sc)) @ [Loaded] \<and>
   (is_trained (fst sa) \<longrightarrow> AnomalyModel_ensure fa sa = sa) \<and>
   AnomalyModel_ensure fa (AnomalyModel_ensure fa sa) = AnomalyModel_ensure fa sa \<and>
   fst (AnomalyModel_load_or_train fa (AnomalyModel_load_or_train fa sa)) = fst (AnomalyModel_load_or_train fa sa) \<and>
   artifact (snd (AnomalyModel_load_or_train fa (AnomalyModel_load_or_train fa sa)))
     = artifact (snd (AnomalyModel_load_or_train fa sa)) \<and>
   journal (snd (AnomalyModel_load_or_train fa (AnomalyModel_load_or_train fa sa)))
     = journal (snd (AnomalyModel_load_or_train fa sa)) @ [Loaded]"
proof -
  have r: "RiskModel_ensure fr (RiskModel_ensure fr sr) = RiskModel_ensure fr sr"
    by (simp add: RiskModel_ensure_def RiskModel_load_or_train_trained)
  have c: "ChurnModel_ensure fc (ChurnModel_ensure fc sc) = ChurnModel_ensure fc sc"
    by (simp add: ChurnModel_ensure_def ChurnModel_load_or_train_trained)
  have a: "AnomalyModel_ensure fa (AnomalyModel_ensure fa sa) = AnomalyModel_ensure fa sa"
    by (simp add: AnomalyModel_ensure_def AnomalyModel_load_or_train_trained)
  show ?thesis
    unfolding r c a
    by (simp add: RiskModel_load_or_train_twice ChurnModel_load_or_train_twice
          AnomalyModel_load_or_train_twice RiskModel_ensure_def ChurnModel_ensure_def
          AnomalyModel_ensure_def)
qed

theorem load_or_train_second_call_witness:
  "is_trained (fst (\<lparr>model = Some (IsolationForest (map sum_list)), is_trained = True\<rparr>,
                    \<lparr>artifact = None, journal = []\<rparr>)) \<and>
   AnomalyModel_ensure (IsolationForest (map sum_list))
     (\<lparr>model = Some (IsolationForest (map sum_list)), is_trained = True\<rparr>,
      \<lparr>artifact = None, journal = []\<rparr>)
   = (\<lparr>model = Some (IsolationForest (map sum_list)), is_trained = True\<rparr>,
      \<lparr>artifact = None, journal = []\<rparr>) \<and>
   journal (snd (AnomalyModel_load_or_train (IsolationForest (map sum_list))
                  (AnomalyModel_load_or_train (IsolationForest (map sum_list))
                     (AnomalyModel_init, \<lparr>artifact = None, journal = []\<rparr>))))
   = [Fit, Dumped, Loaded]"
  using load_or_train_second_call
    [where sa = "(\<lparr>model = Some (IsolationForest (map sum_list)), is_trained = True\<rparr>,
                  \<lparr>artifact = None, journal = []\<rparr>)"
       and fa = "IsolationForest (map sum_list)"]
  by (simp add: AnomalyModel_load_or_train_def AnomalyModel_train_synthetic_def AnomalyModel_init_def)

text \<open>
  \<^verbatim>\<open>load_or_train\<close> is not a no-op on a trained wrapper. When the artifact file is
  missing, a trained risk wrapper trains again and writes the artifact; and from a fresh
  wrapper with a readable artifact, the second of two calls in sequence loads the
  artifact a second time.
\<close>

theorem load_or_train_not_noop:
  "is_trained \<lparr>model = Some \<lparr>rfc_feature_importances = [1], predict_proba = id\<rparr>,
               is_trained = True, feature_importances = Some [1]\<rparr> \<and>
   RiskModel_load_or_train \<lparr>rfc_feature_importances = [1], predict_proba = id\<rparr>
     (\<lparr>model = Some \<lparr>rfc_feature_importances = [1], predict_proba = id\<rparr>,
       is_trained = True, feature_importances = Some [1]\<rparr>,
      \<lparr>artifact = None, journal = []\<rparr>)
   = (\<lparr>model = Some \<lparr>rfc_feature_importances = [1], predict_proba = id\<rparr>,
       is_trained = True, feature_importances = Some [1]\<rparr>,
      \<lparr>artifact = Some (Readable \<lparr>rfc_feature_importances = [1], predict_proba = id\<rparr>),
       journal = [Fit, Dumped]\<rparr>) \<and>
   journal (snd (RiskModel_load_or_train \<lparr>rfc_feature_importances = [1], predict_proba = id\<rparr>
     (RiskModel_init,
      \<lparr>artifact = Some (Readable \<lparr>rfc_feature_importances = [1], predict_proba = id\<rparr>),
       journal = []\<rparr>))) = [Loaded] \<and>
   journal (snd (RiskModel_load_or_train \<lparr>rfc_feature_importances = [1], predict_proba = id\<rparr>
     (RiskModel_load_or_train \<lparr>rfc_feature_importances = [1], predict_proba = id\<rparr>
       (RiskModel_init,
        \<lparr>artifact = Some (Readable \<lparr>rfc_feature_importances = [1], predict_proba = id\<rparr>),
         journal = []\<rparr>)))) = [Loaded, Loaded]"
  by (simp add: RiskModel_load_or_train_def RiskModel_train_synthetic_def RiskModel_init_def)

subsection \<open>Arity validation\<close>

text \<open>
  C4. A batch whose vectors have a length \<open>n\<close> other than the wrapper's arity (8 for risk,
  4 for churn, 3 for anomaly) makes \<open>predict\<close> raise; the exception is Python's
  \<^verbatim>\<open>ValueError\<close>, and its message names the expected and the actual length.
\<close>

theorem predict_wrong_arity:
  assumes "shape1 features = Inr n"
  shows "(n \<noteq> 8 \<longrightarrow> fst (RiskModel_predict fr sr features)
            = Inl (ValueError (''Expected 8 features, got '' @ str_nat n))) \<and>
         (n \<noteq> 4 \<longrightarrow> fst (ChurnModel_predict fc sc features)
            = Inl (ValueError (''Expected 4 features, got '' @ str_nat n))) \<and>
         (n \<noteq> 3 \<longrightarrow> fst (AnomalyModel_predict fa sa features)
            = Inl (ValueError (''Expected 3 features, got '' @ str_nat n)))"
  using assms
  by (simp add: RiskModel_predict_def ChurnModel_predict_def AnomalyModel_predict_def Let_def)

theorem predict_wrong_arity_witness:
  "shape1 (Mat 7 [[1, 2, 3, 4, 5, 6, 7]]) = Inr 7 \<and>
   fst (RiskModel_predict \<lparr>rfc_feature_importances = [1], predict_proba = id\<rparr>
          (RiskModel_init, \<lparr>artifact = None, journal = []\<rparr>) (Mat 7 [[1, 2, 3, 4, 5, 6, 7]]))
     = Inl (ValueError ''Expected 8 features, got 7'') \<and>
   fst (ChurnModel_predict (RandomForestRegressor (map sum_list))
          (ChurnModel_init, \<lparr>artifact = None, journal = []\<rparr>) (Mat 7 [[1, 2, 3, 4, 5, 6, 7]]))
     = Inl (ValueError ''Expected 4 features, got 7'') \<and>
   fst (AnomalyModel_predict (IsolationForest (map sum_list))
          (AnomalyModel_init, \<lparr>artifact = None, journal = []\<rparr>) (Mat 7 [[1, 2, 3, 4, 5, 6, 7]]))
     = Inl (ValueError ''Expected 3 features, got 7'')"
proof -
  have s7: "str_nat 7 = ''7''"
    by (simp add: str_nat.simps [of 7] digit_char_def)
  have sh: "shape1 (Mat 7 [[1, 2, 3, 4, 5, 6, 7]]) = Inr 7"
    by simp
  show ?thesis
    using predict_wrong_arity [OF sh,
        of "\<lparr>rfc_feature_importances = [1], predict_proba = id\<rparr>"
           "(RiskModel_init, \<lparr>artifact = None, journal = []\<rparr>)"
           "RandomForestRegressor (map sum_list)"
           "(ChurnModel_init, \<lparr>artifact = None, journal = []\<rparr>)"
           "IsolationForest (map sum_list)"
           "(AnomalyModel_init, \<lparr>artifact = None, journal = []\<rparr>)"]
    by (simp add: s7)
qed

subsection \<open>Anomaly normalization\<close>

lemma fold_min_const: "\<forall>y \<in> set xs. y = c \<Longrightarrow> fold min xs c = (c::real)"
  by (induction xs) simp_all

lemma fold_max_const: "\<forall>y \<in> set xs. y = c \<Longrightarrow> fold max xs c = (c::real)"
  by (induction xs) simp_all

lemma np_min_const: "raw \<noteq> [] \<Longrightarrow> \<forall>y \<in> set raw. y = c \<Longrightarrow> np_min raw = Inr c"
  by (cases raw) (simp_all add: fold_min_const)

lemma np_max_const: "raw \<noteq> [] \<Longrightarrow> \<forall>y \<in> set raw. y = c \<Longrightarrow> np_max raw = Inr c"
  by (cases raw) (simp_all add: fold_max_const)

lemma fold_min_le: "fold min xs x \<le> (x::real)"
proof (induction xs arbitrary: x)
  case Nil
  show ?case by simp
next
  case (Cons a xs)
  have "fold min xs (min a x) \<le> min a x" by (rule Cons.IH)
  then show ?case by simp
qed

lemma fold_max_ge: "(x::real) \<le> fold max xs x"
proof (induction xs arbitrary: x)
  case Nil
  show ?case by simp
next
  case (Cons a xs)
  have "max a x \<le> fold max xs (max a x)" by (rule Cons.IH)
  then show ?case by simp
qed

lemma normalized_scores_const:
  assumes "raw \<noteq> []" and "\<forall>y \<in> set raw. y = c"
  shows "normalized_scores raw = Inr (replicate (length raw) 0)"
proof -
  have "map (\<lambda>r. (r - c) / range_denominator c c) raw = replicate (length raw) 0"
    using assms(2) by (induction raw) simp_all
  then show ?thesis
    using assms by (simp add: normalized_scores_def np_min_const np_max_const)
qed

lemma AnomalyModel_predict_degenerate:
  assumes "model (fst (AnomalyModel_ensure fitted s)) = Some m"
    and "decision_function m rows = raw"
    and "raw \<noteq> []" and "\<forall>y \<in> set raw. y = c"
  shows "AnomalyModel_predict fitted s (Mat 3 rows)
           = (Inr (replicate (length raw) 1), AnomalyModel_ensure fitted s)"
  using assms
  by (simp add: AnomalyModel_predict_def Let_def normalized_scores_const)

lemma flag_loop_all:
  "flag_loop i (replicate n 1) acc
     = acc @ map (\<lambda>j. \<lparr>index = j, anomaly_score = 1, flag = ''Unusual activity pattern''\<rparr>) [i ..< i + n]"
proof (induction n arbitrary: i acc)
  case 0
  show ?case by simp
next
  case (Suc n)
  have "[i ..< i + Suc n] = i # [Suc i ..< Suc i + n]"
    by (simp add: upt_rec)
  then show ?case
    by (simp add: Suc.IH)
qed

text \<open>
  C2. For a non-empty batch whose raw decision scores all equal \<open>c\<close>, minimum and maximum
  are both \<open>c\<close>, the range denominator is the epsilon \<open>1e-10\<close> and so is not zero, every
  normalized score is 0, and the anomaly prediction returns scores instead of raising. For
  any non-empty batch at all the denominator is positive.
\<close>

theorem normalized_scores_degenerate:
  assumes "model (fst (AnomalyModel_ensure fitted s)) = Some m"
    and "decision_function m rows = raw"
    and "raw \<noteq> []" and "\<forall>y \<in> set raw. y = c"
  shows "np_min raw = Inr c \<and> np_max raw = Inr c \<and>
         range_denominator c c = 1 / 10 ^ 10 \<and> range_denominator c c \<noteq> 0 \<and>
         normalized_scores raw = Inr (replicate (length raw) 0) \<and>
         (\<exists>scores. fst (AnomalyModel_predict fitted s (Mat 3 rows)) = Inr scores) \<and>
         (\<forall>x xs. 0 < range_denominator (fold min xs x) (fold max xs x))"
proof -
  have pos: "0 < range_denominator (fold min xs x) (fold max xs x)" for x xs
  proof -
    have "fold min xs x \<le> fold max xs x"
      using fold_min_le [of xs x] fold_max_ge [of x xs] by linarith
    then show ?thesis by (simp add: range_denominator_def add_pos_nonneg)
  qed
  have run: "\<exists>scores. fst (AnomalyModel_predict fitted s (Mat 3 rows)) = Inr scores"
    by (simp add: AnomalyModel_predict_degenerate [OF assms])
  show ?thesis
    using assms(3,4) pos run
    by (simp add: np_min_const np_max_const normalized_scores_const range_denominator_def)
qed

theorem normalized_scores_degenerate_witness:
  "model (fst (AnomalyModel_ensure (IsolationForest (map sum_list))
                 (AnomalyModel_init, \<lparr>artifact = None, journal = []\<rparr>)))
     = Some (IsolationForest (map sum_list)) \<and>
   decision_function (IsolationForest (map sum_list)) [[1, 1, 0], [1, 1, 0], [0, 2, 0]] = [2, 2, 2] \<and>
   [2, 2, 2] \<noteq> ([] :: real list) \<and> set [2, 2, 2 :: real] = {2} \<and>
   normalized_scores [2, 2, 2] = Inr [0, 0, 0] \<and>
   (\<exists>scores. fst (AnomalyModel_predict (IsolationForest (map sum_list))
                    (AnomalyModel_init, \<lparr>artifact = None, journal = []\<rparr>)
                    (Mat 3 [[1, 1, 0], [1, 1, 0], [0, 2, 0]])) = Inr scores)"
proof -
  have h0: "model (fst (AnomalyModel_ensure (IsolationForest (map sum_list))
                 (AnomalyModel_init, \<lparr>artifact = None, journal = []\<rparr>)))
     = Some (IsolationForest (map sum_list))"
    by (simp add: AnomalyModel_ensure_def AnomalyModel_load_or_train_def
          AnomalyModel_train_synthetic_def AnomalyModel_init_def)
  have h1: "decision_function (IsolationForest (map sum_list)) [[1, 1, 0], [1, 1, 0], [0, 2, 0]]
              = [2, 2, 2]" by simp
  have h2: "[2, 2, 2] \<noteq> ([] :: real list)" by simp
  have h3: "\<forall>y \<in> set [2, 2, 2 :: real]. y = 2" by simp
  show ?thesis
    using h0 h1 h2 h3 normalized_scores_degenerate [OF h0 h1 h2 h3]
    by (simp add: numeral_3_eq_3)
qed

subsection \<open>Anomaly endpoint\<close>

text \<open>
  C9. \<open>detect_anomalies\<close> on an empty feature list (or on a request without a feature
  list) returns empty scores, no flagged contributor and the model name IsolationForest; it
  raises nothing and does not touch the wrapper.
\<close>

theorem detect_anomalies_empty:
  "detect_anomalies fitted s [''features'' \<mapsto> []]
     = (Inr \<lparr>anomaly_scores = [], flagged_contributors = [], model_used = ''IsolationForest''\<rparr>, s) \<and>
   detect_anomalies fitted s Map.empty
     = (Inr \<lparr>anomaly_scores = [], flagged_contributors = [], model_used = ''IsolationForest''\<rparr>, s)"
  by (simp add: detect_anomalies_def dict_get_def)

text \<open>
  C10. For a non-empty batch on which the estimator's raw decision scores are all equal,
  one per contributor, \<open>predict\<close> returns the anomaly score 1 for every contributor, and
  \<open>detect_anomalies\<close> flags every contributor of the batch: the flagged list has one entry
  per index, each with score 1.
\<close>

theorem detect_anomalies_degenerate:
  assumes "request ''features'' = Some features" and "features \<noteq> []"
    and "rows = map (\<lambda>f. [dict_get f ''experience_score'' 0, dict_get f ''contributions'' 0,
                           dict_get f ''rejection_rate'' 0]) features"
    and "model (fst (AnomalyModel_ensure fitted s)) = Some m"
    and "decision_function m rows = replicate (length features) c"
  shows "fst (AnomalyModel_predict fitted s (Mat 3 rows)) = Inr (replicate (length features) 1) \<and>
         fst (detect_anomalies fitted s request)
           = Inr \<lparr>anomaly_scores = replicate (length features) 1,
                  flagged_contributors =
                    map (\<lambda>j. \<lparr>index = j, anomaly_score = 1, flag = ''Unusual activity pattern''\<rparr>)
                      [0 ..< length features],
                  model_used = ''IsolationForest''\<rparr>"
proof -
  have ne: "replicate (length features) c \<noteq> []"
    using assms(2) by simp
  have eq: "\<forall>y \<in> set (replicate (length features) c). y = c"
    by simp
  have p: "AnomalyModel_predict fitted s (Mat 3 rows)
             = (Inr (replicate (length features) 1), AnomalyModel_ensure fitted s)"
    using AnomalyModel_predict_degenerate [OF assms(4) assms(5) ne eq] by simp
  have g: "dict_get request ''features'' [] = features"
    by (simp add: dict_get_def assms(1))
  show ?thesis
    using assms(2) p [unfolded assms(3)]
    by (simp add: detect_anomalies_def Let_def g assms(3) flag_loop_all)
qed

theorem detect_anomalies_degenerate_witness:
  "fst (detect_anomalies (IsolationForest (map sum_list))
          (AnomalyModel_init, \<lparr>artifact = None, journal = []\<rparr>)
          [''features'' \<mapsto> [[''experience_score'' \<mapsto> 1, ''contributions'' \<mapsto> 1],
                                 [''contributions'' \<mapsto> 2]]])
     = Inr \<lparr>anomaly_scores = [1, 1],
            flagged_contributors =
              [\<lparr>index = 0, anomaly_score = 1, flag = ''Unusual activity pattern''\<rparr>,
               \<lparr>index = 1, anomaly_score = 1, flag = ''Unusual activity pattern''\<rparr>],
            model_used = ''IsolationForest''\<rparr>"
proof -
  have h1: "[''features'' \<mapsto> [[''experience_score'' \<mapsto> 1, ''contributions'' \<mapsto> 1],
                                     [''contributions'' \<mapsto> 2 :: real]]] ''features''
              = Some [[''experience_score'' \<mapsto> 1, ''contributions'' \<mapsto> 1], [''contributions'' \<mapsto> 2]]"
    by simp
  have h2: "[[''experience_score'' \<mapsto> 1, ''contributions'' \<mapsto> 1], [''contributions'' \<mapsto> 2 :: real]] \<noteq> []"
    by simp
  have h3: "[[1, 1, 0], [0, 2, 0]]
      = map (\<lambda>f. [dict_get f ''experience_score'' 0, dict_get f ''contributions'' 0,
                   dict_get f ''rejection_rate'' 0])
          [[''experience_score'' \<mapsto> 1, ''contributions'' \<mapsto> 1], [''contributions'' \<mapsto> 2 :: real]]"
    by (simp add: dict_get_def)
  have h4: "model (fst (AnomalyModel_ensure (IsolationForest (map sum_list))
                 (AnomalyModel_init, \<lparr>artifact = None, journal = []\<rparr>)))
     = Some (IsolationForest (map sum_list))"
    by (simp add: AnomalyModel_ensure_def AnomalyModel_load_or_train_def
          AnomalyModel_train_synthetic_def AnomalyModel_init_def)
  have h5: "decision_function (IsolationForest (map sum_list)) [[1, 1, 0], [0, 2, 0]]
      = replicate (length [[''experience_score'' \<mapsto> 1, ''contributions'' \<mapsto> 1],
                           [''contributions'' \<mapsto> 2 :: real]]) 2"
    by (simp add: numeral_2_eq_2)
  show ?thesis
    using detect_anomalies_degenerate
      [of "[''features'' \<mapsto> [[''experience_score'' \<mapsto> 1, ''contributions'' \<mapsto> 1],
                                    [''contributions'' \<mapsto> 2]]]"
          "[[''experience_score'' \<mapsto> 1, ''contributions'' \<mapsto> 1], [''contributions'' \<mapsto> 2]]"
          "[[1, 1, 0], [0, 2, 0]]"
          "IsolationForest (map sum_list)"
          "(AnomalyModel_init, \<lparr>artifact = None, journal = []\<rparr>)"
          "IsolationForest (map sum_list)" 2,
       OF h1 h2 h3 h4 h5]
    by (simp add: numeral_2_eq_2 upt_rec)
qed

subsection \<open>Explanation engine\<close>


















end
